theory Spec2Isabelle
  imports Main "HOL-Library.Sublist"
begin

section \<open>Python values and exceptions\<close>

text \<open>
  The exceptions the modelled code can raise: Python's IndexError (a list or array row
  read out of range), numpy's ValueError (a reshape, a broadcast or np.zeros that does
  not fit) and the RuntimeError SimpleITK raises for an argument it refuses.
\<close>

datatype error = IndexError | ValueError | RuntimeError

text \<open>\<^verbatim>\<open>xs[i]\<close> for a non-negative index: out of range raises IndexError.\<close>

definition py_index :: "'a list \<Rightarrow> nat \<Rightarrow> error + 'a" where
  "py_index xs i = (if i < length xs then Inr (xs ! i) else Inl IndexError)"

text \<open>
  \<^verbatim>\<open>v.reshape(-1, d)\<close> on a flat array: the rows are the consecutive groups of
  \<open>d\<close> values; numpy raises ValueError when \<open>d\<close> is zero or does not divide the length.
\<close>

definition reshape_rows :: "nat \<Rightarrow> 'a list \<Rightarrow> error + 'a list list" where
  "reshape_rows d v =
     (if d = 0 \<or> length v mod d \<noteq> 0 then Inl ValueError
      else Inr (map (\<lambda>k. take d (drop (k * d) v)) [0..<length v div d]))"

section \<open>SimpleITK values\<close>

text \<open>
  Scalars (angles, coordinates) are of an arbitrary type \<open>'s\<close> and pixels of an arbitrary
  type \<open>'p\<close>: the registration code never computes with a coordinate itself, and with a
  pixel only through numpy's subtraction and SimpleITK's multiplication.
\<close>

text \<open>
  \<^verbatim>\<open>sitk.Euler2DTransform\<close>: the parameters (angle, translation x, translation y) and the
  fixed parameters (the centre of rotation).
\<close>

record 's euler2d =
  e2_angle :: 's
  e2_translation :: "'s \<times> 's"
  e2_center :: "'s \<times> 's"

text \<open>\<^verbatim>\<open>sitk.Euler2DTransform()\<close>: the identity, centred at the origin.\<close>

definition Euler2DTransform :: "('s::zero) euler2d" where
  "Euler2DTransform = \<lparr>e2_angle = 0, e2_translation = (0, 0), e2_center = (0, 0)\<rparr>"

text \<open>
  \<^verbatim>\<open>t.SetParameters(row)\<close> overwrites the three parameters and leaves the centre;
  SimpleITK refuses a row that does not have three values.
\<close>

definition SetParameters :: "'s euler2d \<Rightarrow> 's list \<Rightarrow> error + 's euler2d" where
  "SetParameters t row =
     (case row of
        [a, x, y] \<Rightarrow> Inr (t\<lparr>e2_angle := a, e2_translation := (x, y)\<rparr>)
      | _ \<Rightarrow> Inl RuntimeError)"

definition GetParameters :: "'s euler2d \<Rightarrow> 's \<times> 's \<times> 's" where
  "GetParameters t = (e2_angle t, fst (e2_translation t), snd (e2_translation t))"

definition GetCenter :: "'s euler2d \<Rightarrow> 's \<times> 's" where
  "GetCenter t = e2_center t"

text \<open>
  A 2D \<^verbatim>\<open>sitk.Image\<close>: its grid (size as (nx, ny), origin, spacing, direction) and its
  pixel buffer, x running fastest.
\<close>

record ('s, 'p) image2 =
  size2 :: "nat \<times> nat"
  origin2 :: "'s \<times> 's"
  spacing2 :: "'s \<times> 's"
  direction2 :: "'s list"
  pixels2 :: "'p list"

type_synonym 's grid2 = "(nat \<times> nat) \<times> ('s \<times> 's) \<times> ('s \<times> 's) \<times> 's list"

definition grid_of :: "('s, 'p) image2 \<Rightarrow> 's grid2" where
  "grid_of img = (size2 img, origin2 img, spacing2 img, direction2 img)"

definition voxels2 :: "('s, 'p) image2 \<Rightarrow> nat" where
  "voxels2 img = fst (size2 img) * snd (size2 img)"

text \<open>A buffer that holds one pixel for every grid point.\<close>

definition wf_image2 :: "('s, 'p) image2 \<Rightarrow> bool" where
  "wf_image2 img = (length (pixels2 img) = voxels2 img)"

datatype interpolator = sitkNearestNeighbor | sitkLinear

text \<open>A 2D numpy array: its shape (rows, columns) and its data in row-major order.\<close>

record 'p ndarray =
  shape :: "nat \<times> nat"
  data :: "'p list"

text \<open>
  \<^verbatim>\<open>sitk.GetArrayFromImage\<close>: a copy of the buffer, the shape being the size reversed.
\<close>

definition GetArrayFromImage :: "('s, 'p) image2 \<Rightarrow> 'p ndarray" where
  "GetArrayFromImage img =
     \<lparr>shape = (snd (size2 img), fst (size2 img)), data = pixels2 img\<rparr>"

text \<open>
  numpy's \<^verbatim>\<open>a - b\<close> on 2D arrays. Equal shapes subtract element by element; otherwise
  numpy broadcasts an axis of length 1 against the other array's axis, and raises
  ValueError when an axis fits neither way.
\<close>

definition bdim :: "nat \<Rightarrow> nat \<Rightarrow> nat option" where
  "bdim a b = (if a = b then Some a else if a = 1 then Some b
               else if b = 1 then Some a else None)"

definition nd_at :: "'p ndarray \<Rightarrow> nat \<Rightarrow> nat \<Rightarrow> 'p" where
  "nd_at a i j =
     data a ! ((if fst (shape a) = 1 then 0 else i) * snd (shape a)
               + (if snd (shape a) = 1 then 0 else j))"

definition nd_sub :: "('p::minus) ndarray \<Rightarrow> 'p ndarray \<Rightarrow> error + 'p ndarray" where
  "nd_sub a b =
     (if shape a = shape b
      then Inr \<lparr>shape = shape a, data = map (\<lambda>(x, y). x - y) (zip (data a) (data b))\<rparr>
      else
        (case (bdim (fst (shape a)) (fst (shape b)), bdim (snd (shape a)) (snd (shape b))) of
           (Some r, Some c) \<Rightarrow>
             Inr \<lparr>shape = (r, c),
                  data = map (\<lambda>k. nd_at a (k div c) (k mod c) - nd_at b (k div c) (k mod c))
                             [0..<r * c]\<rparr>
         | _ \<Rightarrow> Inl ValueError))"

text \<open>\<^verbatim>\<open>a.flatten()\<close>: the data in row-major order.\<close>

definition flatten :: "'p ndarray \<Rightarrow> 'p list" where
  "flatten a = data a"

text \<open>
  \<^verbatim>\<open>residual[i,:] = v\<close> for a matrix held as its list of rows: a \<open>v\<close> of the row's
  length replaces the row, a \<open>v\<close> of length 1 is broadcast over it, any other length
  raises ValueError.
\<close>

definition assign_row :: "'p list list \<Rightarrow> nat \<Rightarrow> 'p list \<Rightarrow> error + 'p list list" where
  "assign_row m i v =
     (if length m \<le> i then Inl IndexError
      else if length v = length (m ! i) then Inr (m[i := v])
      else if length v = 1 then Inr (m[i := replicate (length (m ! i)) (v ! 0)])
      else Inl ValueError)"

section \<open>The resampling primitive\<close>

text \<open>
  \<^verbatim>\<open>sitk.Resample(image, reference, transform, interpolator)\<close> returns an image on the
  reference image's grid. The value it computes at each grid point is the library's
  business (interpolation in floating point): it is the parameter \<open>rp\<close>, a function
  of the moving image, the reference grid, the transform, the interpolator and the
  index of the grid point.
\<close>

type_synonym ('s, 'p) resampler =
  "('s, 'p) image2 \<Rightarrow> 's grid2 \<Rightarrow> 's euler2d \<Rightarrow> interpolator \<Rightarrow> nat \<Rightarrow> 'p"

definition Resample ::
  "('s, 'p) resampler \<Rightarrow> ('s, 'p) image2 \<Rightarrow> ('s, 'p) image2 \<Rightarrow> 's euler2d \<Rightarrow> interpolator
   \<Rightarrow> ('s, 'p) image2" where
  "Resample rp img ref t ip =
     \<lparr>size2 = size2 ref, origin2 = origin2 ref, spacing2 = spacing2 ref,
      direction2 = direction2 ref,
      pixels2 = map (rp img (grid_of ref) t ip) [0..<voxels2 ref]\<rparr>"

section \<open>The residual model\<close>

text \<open>A projected slice: a 2D image with the file name and slice number it came from.\<close>

record ('s, 'p) slice2 =
  sitk2 :: "('s, 'p) image2"
  filename2 :: string
  slice_number2 :: nat

text \<open>
  What \<^verbatim>\<open>_get_residual_data_fit\<close> reads from \<^verbatim>\<open>self\<close>: \<^verbatim>\<open>_N_slices\<close>,
  \<^verbatim>\<open>_N_2D_voxels\<close>, \<^verbatim>\<open>_degrees_of_freedom\<close>, \<^verbatim>\<open>_2D_projected_slices\<close> and
  \<^verbatim>\<open>_fixed_grid_2D_sitk\<close>.
\<close>

record ('s, 'p) residual_model =
  N_slices :: nat
  N_2D_voxels :: nat
  degrees_of_freedom :: nat
  projected_slices_2D :: "('s, 'p) slice2 list"
  fixed_grid_2D_sitk :: "('s, 'p) image2"

text \<open>
  The transform objects live in a heap (a list of objects, an address being an index), and
  \<^verbatim>\<open>transforms_sitk\<close> is a list of addresses: the caller builds it as
  \<^verbatim>\<open>[sitk.Euler2DTransform()] * N\<close>, N references to one object.
  \<^verbatim>\<open>transforms_sitk[i+1].SetParameters(row)\<close> writes to the heap.
\<close>

type_synonym 's heap = "'s euler2d list"

definition set_parameters_at :: "'s heap \<Rightarrow> nat \<Rightarrow> 's list \<Rightarrow> error + 's heap" where
  "set_parameters_at h a row =
     (if length h \<le> a then Inl RuntimeError
      else (case SetParameters (h ! a) row of
              Inl e \<Rightarrow> Inl e
            | Inr t \<Rightarrow> Inr (h[a := t])))"

text \<open>
  The body of the loop of \<^verbatim>\<open>_get_residual_data_fit\<close> at index \<open>i\<close>, in two parts.
  The loop state is the heap, the residual matrix and \<^verbatim>\<open>slice_i_nda\<close>.

  \<open>residual_block\<close> is the part after \<^verbatim>\<open>SetParameters\<close>: with \<open>t\<close> the value of the
  transform object \<^verbatim>\<open>transforms_sitk[i+1]\<close>, it resamples slice \<open>i + 1\<close> onto the fixed
  grid, subtracts the array from \<^verbatim>\<open>slice_i_nda\<close>, stores the flattened difference as
  row \<open>i\<close> of the residual and hands the resampled array on as the next
  \<^verbatim>\<open>slice_i_nda\<close>.
\<close>

definition residual_block ::
  "('s, 'p::minus) resampler \<Rightarrow> ('s, 'p) residual_model \<Rightarrow> interpolator \<Rightarrow> nat \<Rightarrow> 's euler2d
   \<Rightarrow> 'p list list \<times> 'p ndarray \<Rightarrow> error + 'p list list \<times> 'p ndarray" where
  "residual_block rp S ip i t acc =
     (case py_index (projected_slices_2D S) (i + 1) of
        Inl e \<Rightarrow> Inl e
      | Inr sl \<Rightarrow>
     (let slice_ip1_sitk = Resample rp (sitk2 sl) (fixed_grid_2D_sitk S) t ip;
          slice_ip1_nda = GetArrayFromImage slice_ip1_sitk
      in
     (case nd_sub (snd acc) slice_ip1_nda of
        Inl e \<Rightarrow> Inl e
      | Inr d \<Rightarrow>
     (case assign_row (fst acc) i (flatten d) of
        Inl e \<Rightarrow> Inl e
      | Inr residual' \<Rightarrow> Inr (residual', slice_ip1_nda)))))"

text \<open>
  \<open>residual_step\<close> is the whole body: \<^verbatim>\<open>transforms_sitk[i+1].SetParameters(parameters[i,:])\<close>
  writes to the heap, and the rest runs on the object as it then is. An exception leaves
  the heap as it is at that point.
\<close>

definition residual_step ::
  "('s, 'p::minus) resampler \<Rightarrow> ('s, 'p) residual_model \<Rightarrow> 's list list \<Rightarrow> nat list
   \<Rightarrow> interpolator \<Rightarrow> nat \<Rightarrow> 's heap \<Rightarrow> 'p list list \<times> 'p ndarray
   \<Rightarrow> 's heap \<times> (error + 'p list list \<times> 'p ndarray)" where
  "residual_step rp S parameters transforms_sitk ip i h acc =
     (case py_index transforms_sitk (i + 1) of
        Inl e \<Rightarrow> (h, Inl e)
      | Inr a \<Rightarrow>
     (case py_index parameters i of
        Inl e \<Rightarrow> (h, Inl e)
      | Inr row \<Rightarrow>
     (case set_parameters_at h a row of
        Inl e \<Rightarrow> (h, Inl e)
      | Inr h' \<Rightarrow> (h', residual_block rp S ip i (h' ! a) acc))))"

text \<open>The loop over \<^verbatim>\<open>range(0, N_slices - 1)\<close>: it stops at the first exception.\<close>

fun residual_loop ::
  "('s, 'p::minus) resampler \<Rightarrow> ('s, 'p) residual_model \<Rightarrow> 's list list \<Rightarrow> nat list
   \<Rightarrow> interpolator \<Rightarrow> nat list \<Rightarrow> 's heap \<Rightarrow> 'p list list \<times> 'p ndarray
   \<Rightarrow> 's heap \<times> (error + 'p list list \<times> 'p ndarray)" where
  "residual_loop rp S parameters transforms_sitk ip [] h acc = (h, Inr acc)"
| "residual_loop rp S parameters transforms_sitk ip (i # is) h acc =
     (case residual_step rp S parameters transforms_sitk ip i h acc of
        (h', Inl e) \<Rightarrow> (h', Inl e)
      | (h', Inr acc') \<Rightarrow> residual_loop rp S parameters transforms_sitk ip is h' acc')"

text \<open>
  \<^verbatim>\<open>_get_residual_data_fit(parameters_vec, transforms_sitk, interpolator)\<close>.
  \<^verbatim>\<open>np.zeros((N_slices - 1, N_2D_voxels))\<close> raises ValueError for zero slices (a
  negative dimension). The result is the heap after the call and the flattened residual.
\<close>

definition get_residual_data_fit ::
  "('s, 'p::{zero,minus}) resampler \<Rightarrow> ('s, 'p) residual_model \<Rightarrow> 's list \<Rightarrow> nat list
   \<Rightarrow> interpolator \<Rightarrow> 's heap \<Rightarrow> 's heap \<times> (error + 'p list)" where
  "get_residual_data_fit rp S parameters_vec transforms_sitk ip h =
     (if N_slices S = 0 then (h, Inl ValueError)
      else
        (let residual = replicate (N_slices S - 1) (replicate (N_2D_voxels S) 0) in
         (case reshape_rows (degrees_of_freedom S) parameters_vec of
            Inl e \<Rightarrow> (h, Inl e)
          | Inr parameters \<Rightarrow>
         (case py_index (projected_slices_2D S) 0 of
            Inl e \<Rightarrow> (h, Inl e)
          | Inr sl0 \<Rightarrow>
         (case residual_loop rp S parameters transforms_sitk ip [0..<N_slices S - 1] h
                 (residual, GetArrayFromImage (sitk2 sl0)) of
            (h', Inl e) \<Rightarrow> (h', Inl e)
          | (h', Inr (residual', _)) \<Rightarrow> (h', Inr (concat residual')))))))"

section \<open>3D transforms, slices and stacks\<close>

text \<open>
  \<^verbatim>\<open>sitk.Euler3DTransform\<close>: the three rotation angles (about x, y and z), the translation
  and the centre of rotation.
\<close>

record 's euler3d =
  e3_rotation :: "'s \<times> 's \<times> 's"
  e3_translation :: "'s \<times> 's \<times> 's"
  e3_center :: "'s \<times> 's \<times> 's"

definition Euler3DTransform :: "('s::zero) euler3d" where
  "Euler3DTransform =
     \<lparr>e3_rotation = (0, 0, 0), e3_translation = (0, 0, 0), e3_center = (0, 0, 0)\<rparr>"

definition SetRotation :: "'s euler3d \<Rightarrow> 's \<Rightarrow> 's \<Rightarrow> 's \<Rightarrow> 's euler3d" where
  "SetRotation t ax ay az = t\<lparr>e3_rotation := (ax, ay, az)\<rparr>"

definition SetTranslation :: "'s euler3d \<Rightarrow> 's \<times> 's \<times> 's \<Rightarrow> 's euler3d" where
  "SetTranslation t v = t\<lparr>e3_translation := v\<rparr>"

text \<open>The fixed parameters of a 3D Euler transform, as the code sets them: the centre.\<close>

definition SetFixedParameters :: "'s euler3d \<Rightarrow> 's \<times> 's \<times> 's \<Rightarrow> 's euler3d" where
  "SetFixedParameters t c = t\<lparr>e3_center := c\<rparr>"

text \<open>\<^verbatim>\<open>_get_3D_from_2D_rigid_transform_sitk\<close>.\<close>

definition get_3D_from_2D_rigid_transform_sitk :: "('s::zero) euler2d \<Rightarrow> 's euler3d" where
  "get_3D_from_2D_rigid_transform_sitk rigid_transform_2D_sitk =
     (case GetParameters rigid_transform_2D_sitk of
        (angle_z, translation_x, translation_y) \<Rightarrow>
     (case GetCenter rigid_transform_2D_sitk of
        (center_x, center_y) \<Rightarrow>
     (let translation_3D = (translation_x, translation_y, 0);
          center_3D = (center_x, center_y, 0);
          rigid_transform_3D = Euler3DTransform;
          rigid_transform_3D = SetRotation rigid_transform_3D 0 0 angle_z;
          rigid_transform_3D = SetTranslation rigid_transform_3D translation_3D;
          rigid_transform_3D = SetFixedParameters rigid_transform_3D center_3D
      in rigid_transform_3D)))"

text \<open>
  \<^verbatim>\<open>sitk.AffineTransform(3)\<close>: a 3 x 3 matrix (nine values, row by row), a translation and
  a centre. A fresh one is the identity.
\<close>

record 's affine3d =
  aff_matrix :: "'s list"
  aff_translation :: "'s \<times> 's \<times> 's"
  aff_center :: "'s \<times> 's \<times> 's"

definition AffineTransform3 :: "('s::{zero,one}) affine3d" where
  "AffineTransform3 =
     \<lparr>aff_matrix = [1, 0, 0, 0, 1, 0, 0, 0, 1], aff_translation = (0, 0, 0),
      aff_center = (0, 0, 0)\<rparr>"

text \<open>The helpers of the repository compose an Euler or an affine transform with an affine one.\<close>

datatype 's transform3 = Euler3 "'s euler3d" | Affine "'s affine3d"

text \<open>
  A 3D \<^verbatim>\<open>sitk.Image\<close>: size (nx, ny, nz), origin, spacing, direction (nine values) and
  the pixel buffer, x running fastest and z slowest.
\<close>

record ('s, 'p) image3 =
  size3 :: "nat \<times> nat \<times> nat"
  origin3 :: "'s \<times> 's \<times> 's"
  spacing3 :: "'s \<times> 's \<times> 's"
  direction3 :: "'s list"
  pixels3 :: "'p list"

text \<open>
  A slice of a stack (\<^verbatim>\<open>base.Slice\<close>): its image, its mask (pixels of type \<open>'m\<close>), file
  name and slice number.
\<close>

record ('s, 'p, 'm) slice3 =
  sitk :: "('s, 'p) image3"
  sitk_mask :: "('s, 'm) image3"
  filename :: string
  slice_number :: nat

text \<open>
  Slices are objects that the code copies and then mutates, so they live in a store: a
  list of slice objects, an address being an index. A stack (\<^verbatim>\<open>base.Stack\<close>) holds its
  volume, the addresses of its slices in order, and its file name.
\<close>

type_synonym ('s, 'p, 'm) store = "('s, 'p, 'm) slice3 list"

record ('s, 'p, 'm) stack =
  stack_sitk :: "('s, 'p) image3"
  stack_slices :: "nat list"
  stack_filename :: string

text \<open>
  Modelled from the spec: \<^verbatim>\<open>Slice.from_slice\<close> of \<^verbatim>\<open>base/Slice.py\<close>, which is not among
  the sources. The spec has it construct a slice from an existing one as a copy
  ("Duplicate the slice"): a new object with the same content, at a fresh address.
\<close>

definition Slice_from_slice :: "('s, 'p, 'm) store \<Rightarrow> nat \<Rightarrow> ('s, 'p, 'm) store \<times> nat" where
  "Slice_from_slice st a = (st @ [st ! a], length st)"

text \<open>
  Modelled from the spec: \<^verbatim>\<open>Stack.from_stack\<close> of \<^verbatim>\<open>base/Stack.py\<close>, which is not among
  the sources. The spec has it construct a stack from an existing one as a structural
  copy with an optional file name override: every slice is copied, in order.
\<close>

fun copy_slices :: "('s, 'p, 'm) store \<Rightarrow> nat list \<Rightarrow> ('s, 'p, 'm) store \<times> nat list" where
  "copy_slices st [] = (st, [])"
| "copy_slices st (a # as) =
     (case Slice_from_slice st a of
        (st', a') \<Rightarrow> (case copy_slices st' as of (st'', as') \<Rightarrow> (st'', a' # as')))"

definition Stack_from_stack ::
  "('s, 'p, 'm) store \<Rightarrow> ('s, 'p, 'm) stack \<Rightarrow> string option
   \<Rightarrow> ('s, 'p, 'm) store \<times> ('s, 'p, 'm) stack" where
  "Stack_from_stack st stack_to_copy fname =
     (case copy_slices st (stack_slices stack_to_copy) of
        (st', as) \<Rightarrow>
          (st', stack_to_copy
                  \<lparr>stack_slices := as,
                   stack_filename :=
                     (case fname of None \<Rightarrow> stack_filename stack_to_copy | Some f \<Rightarrow> f)\<rparr>))"

text \<open>
  Modelled from the spec: \<^verbatim>\<open>Slice.from_sitk_image\<close> of \<^verbatim>\<open>base/Slice.py\<close>, which is not
  among the sources: a slice constructed from a raw 2D image plus metadata.
\<close>

definition Slice_from_sitk_image ::
  "('s, 'p) image2 \<Rightarrow> string \<Rightarrow> nat \<Rightarrow> ('s, 'p) slice2" where
  "Slice_from_sitk_image img fname num =
     \<lparr>sitk2 = img, filename2 = fname, slice_number2 = num\<rparr>"

section \<open>The library\<close>

text \<open>
  What the registration calls in SimpleITK, scipy and the repository's helper modules and
  cannot be read off the sources is a parameter of the model, one field each:
  \<^item> \<open>resample_pixel\<close>: the values \<^verbatim>\<open>sitk.Resample\<close> interpolates;
  \<^item> \<open>euler2d_inverse\<close>: \<^verbatim>\<open>sitk.Euler2DTransform(t.GetInverse())\<close>;
  \<^item> \<open>affine_inverse\<close>: \<^verbatim>\<open>sitk.AffineTransform(t.GetInverse())\<close>, \<open>None\<close> where
    SimpleITK raises because the transform is singular;
  \<^item> \<open>composite\<close>: \<^verbatim>\<open>sitkh.get_composite_sitk_affine_transform(outer, inner)\<close>;
  \<^item> \<open>affine_from_image\<close>: \<^verbatim>\<open>sitkh.get_sitk_affine_transform_from_sitk_image\<close>;
  \<^item> \<open>direction_from_affine\<close>, \<open>origin_from_affine\<close>:
    \<^verbatim>\<open>sitkh.get_sitk_image_direction_from_sitk_affine_transform\<close> and
    \<^verbatim>\<open>sitkh.get_sitk_image_origin_from_sitk_affine_transform\<close>;
  \<^item> \<open>collapse_direction\<close>: the 2D direction SimpleITK gives the plane \<^verbatim>\<open>img[:,:,0]\<close>,
    \<open>None\<close> where it raises because the 3D direction cannot be collapsed;
  \<^item> \<open>cast_pixel\<close>: \<^verbatim>\<open>sitk.CastImageFilter\<close> from the mask's to the image's pixel type;
  \<^item> \<open>update_motion_correction\<close>: \<^verbatim>\<open>Slice.update_motion_correction\<close>;
  \<^item> \<open>least_squares\<close>: \<^verbatim>\<open>scipy.optimize.least_squares\<close> with the method and loss the
    code passes, as a function of the objective and the initial guess that returns the
    solution \<^verbatim>\<open>res.x\<close> or raises.
\<close>

record ('s, 'p, 'm) library =
  resample_pixel :: "('s, 'p) resampler"
  euler2d_inverse :: "'s euler2d \<Rightarrow> 's euler2d"
  affine_inverse :: "'s affine3d \<Rightarrow> 's affine3d option"
  composite :: "'s transform3 \<Rightarrow> 's affine3d \<Rightarrow> 's affine3d"
  affine_from_image :: "('s, 'p) image3 \<Rightarrow> 's affine3d"
  direction_from_affine :: "'s affine3d \<Rightarrow> ('s, 'p) image3 \<Rightarrow> 's list"
  origin_from_affine :: "'s affine3d \<Rightarrow> ('s, 'p) image3 \<Rightarrow> 's \<times> 's \<times> 's"
  collapse_direction :: "'s list \<Rightarrow> 's list option"
  cast_pixel :: "'m \<Rightarrow> 'p"
  update_motion_correction :: "('s, 'p, 'm) slice3 \<Rightarrow> 's affine3d \<Rightarrow> ('s, 'p, 'm) slice3"
  least_squares :: "('s list \<Rightarrow> error + 'p list) \<Rightarrow> 's list \<Rightarrow> error + 's list"

section \<open>The registration object\<close>

text \<open>
  The attributes of a \<^verbatim>\<open>RegularizedInPlaneRegistration\<close>: those the constructor stores
  (\<^verbatim>\<open>_fixed\<close>, \<^verbatim>\<open>_moving\<close>, the mask flags) and those the run assigns
  (\<^verbatim>\<open>_2D_projected_slices\<close>, \<^verbatim>\<open>_parameters\<close>, \<^verbatim>\<open>_stack_corrected\<close>,
  \<^verbatim>\<open>_registration_transforms_sitk\<close>). A list attribute the run has not assigned yet
  is empty here.
\<close>

record ('s, 'p, 'm) registration =
  fixed :: "('s, 'p, 'm) stack"
  moving :: "('s, 'p, 'm) stack option"
  use_fixed_mask :: bool
  use_moving_mask :: bool
  projected_slices :: "('s, 'p) slice2 list"
  parameters :: "'s list list"
  stack_corrected :: "('s, 'p, 'm) stack option"
  registration_transforms_sitk :: "'s affine3d list"

text \<open>
  The constructor: \<^verbatim>\<open>_nda_shape\<close> is the size of the fixed stack's volume reversed, so
  \<^verbatim>\<open>_N_slices\<close> is its extent in z and \<^verbatim>\<open>_N_2D_voxels\<close> the product of the other two.
\<close>

definition init_N_slices :: "('s, 'p, 'm) registration \<Rightarrow> nat" where
  "init_N_slices self = (case size3 (stack_sitk (fixed self)) of (nx, ny, nz) \<Rightarrow> nz)"

definition init_N_2D_voxels :: "('s, 'p, 'm) registration \<Rightarrow> nat" where
  "init_N_2D_voxels self = (case size3 (stack_sitk (fixed self)) of (nx, ny, nz) \<Rightarrow> ny * nx)"

definition init ::
  "('s, 'p, 'm) stack \<Rightarrow> ('s, 'p, 'm) stack option \<Rightarrow> bool \<Rightarrow> bool \<Rightarrow> ('s, 'p, 'm) registration"
  where
  "init fixed_stack moving_stack fixed_mask moving_mask =
     \<lparr>fixed = fixed_stack, moving = moving_stack, use_fixed_mask = fixed_mask,
      use_moving_mask = moving_mask, projected_slices = [], parameters = [],
      stack_corrected = None, registration_transforms_sitk = []\<rparr>"

section \<open>Alignment transforms of the slices\<close>

text \<open>
  \<^verbatim>\<open>_get_list_of_3D_rigid_transforms_of_slices\<close>: for each slice of the stack, the inverse
  of the affine transform made of the slice's direction and origin. Modelled from the
  spec: \<^verbatim>\<open>stack.get_number_of_slices()\<close> is the number of slices of the stack.
\<close>

definition transform_PP_of :: "('s::{zero,one}, 'p) image3 \<Rightarrow> 's affine3d" where
  "transform_PP_of slice_3D_sitk =
     AffineTransform3\<lparr>aff_matrix := direction3 slice_3D_sitk,
                       aff_translation := origin3 slice_3D_sitk\<rparr>"

fun rigid_transforms_loop ::
  "('s::{zero,one}, 'p, 'm) library \<Rightarrow> ('s, 'p, 'm) store \<Rightarrow> nat list
   \<Rightarrow> error + 's affine3d list" where
  "rigid_transforms_loop L st [] = Inr []"
| "rigid_transforms_loop L st (a # as) =
     (case affine_inverse L (transform_PP_of (sitk (st ! a))) of
        None \<Rightarrow> Inl RuntimeError
      | Some t \<Rightarrow>
          (case rigid_transforms_loop L st as of
             Inl e \<Rightarrow> Inl e
           | Inr ts \<Rightarrow> Inr (t # ts)))"

definition get_list_of_3D_rigid_transforms_of_slices ::
  "('s::{zero,one}, 'p, 'm) library \<Rightarrow> ('s, 'p, 'm) store \<Rightarrow> ('s, 'p, 'm) stack
   \<Rightarrow> error + 's affine3d list" where
  "get_list_of_3D_rigid_transforms_of_slices L st stack =
     rigid_transforms_loop L st (stack_slices stack)"

section \<open>Slice projection\<close>

text \<open>
  \<^verbatim>\<open>img[:,:,0]\<close>: the first plane of a 3D image, with the first two components of origin
  and spacing and the collapsed direction.
\<close>

definition extract_plane0 ::
  "('s, 'p, 'm) library \<Rightarrow> ('s, 'q) image3 \<Rightarrow> error + ('s, 'q) image2" where
  "extract_plane0 L img =
     (case size3 img of
        (nx, ny, nz) \<Rightarrow>
          if nz = 0 then Inl IndexError
          else
            (case collapse_direction L (direction3 img) of
               None \<Rightarrow> Inl RuntimeError
             | Some d \<Rightarrow>
                 Inr \<lparr>size2 = (nx, ny),
                      origin2 = (fst (origin3 img), fst (snd (origin3 img))),
                      spacing2 = (fst (spacing3 img), fst (snd (spacing3 img))),
                      direction2 = d,
                      pixels2 = take (nx * ny) (pixels3 img)\<rparr>))"

text \<open>\<^verbatim>\<open>caster.Execute(mask)\<close>: the same image with every pixel cast.\<close>

definition Cast :: "('s, 'p, 'm) library \<Rightarrow> ('s, 'm) image2 \<Rightarrow> ('s, 'p) image2" where
  "Cast L img =
     \<lparr>size2 = size2 img, origin2 = origin2 img, spacing2 = spacing2 img,
      direction2 = direction2 img, pixels2 = map (cast_pixel L) (pixels2 img)\<rparr>"

text \<open>
  \<^verbatim>\<open>a * b\<close> on two images: the element-wise product on the grid of \<open>a\<close>. SimpleITK
  raises when the two images do not occupy the same grid; it compares origin, spacing
  and direction up to a tolerance, the model compares them exactly.
\<close>

definition Multiply ::
  "('s, 'p::times) image2 \<Rightarrow> ('s, 'p) image2 \<Rightarrow> error + ('s, 'p) image2" where
  "Multiply a b =
     (if grid_of a = grid_of b
      then Inr (a\<lparr>pixels2 := map (\<lambda>(x, y). x * y) (zip (pixels2 a) (pixels2 b))\<rparr>)
      else Inl RuntimeError)"

text \<open>
  The body of the loop of \<^verbatim>\<open>_get_2D_projected_and_masked_slices\<close> at index \<open>i\<close>: the
  result is the store after it and the projected 2D slice.
\<close>

definition set_geometry ::
  "('s, 'p, 'm) slice3 \<Rightarrow> 's list \<Rightarrow> 's \<times> 's \<times> 's \<Rightarrow> ('s, 'p, 'm) slice3" where
  "set_geometry s direction origin =
     s\<lparr>sitk := (sitk s)\<lparr>direction3 := direction, origin3 := origin\<rparr>,
       sitk_mask := (sitk_mask s)\<lparr>direction3 := direction, origin3 := origin\<rparr>\<rparr>"

definition project_slice ::
  "('s, 'p::times, 'm) library \<Rightarrow> ('s, 'p, 'm) registration \<Rightarrow> ('s, 'p, 'm) stack
   \<Rightarrow> 's affine3d list \<Rightarrow> nat \<Rightarrow> ('s, 'p, 'm) store
   \<Rightarrow> ('s, 'p, 'm) store \<times> (error + ('s, 'p) slice2)" where
  "project_slice L self stack transforms_PP_3D_sitk i st =
     (case py_index (stack_slices stack) i of
        Inl e \<Rightarrow> (st, Inl e)
      | Inr a0 \<Rightarrow>
     (case Slice_from_slice st a0 of
        (st1, a) \<Rightarrow>
     (let T_PI = affine_from_image L (sitk (st1 ! a)) in
     (case py_index transforms_PP_3D_sitk i of
        Inl e \<Rightarrow> (st1, Inl e)
      | Inr pp \<Rightarrow>
     (let T_PI_align = composite L (Affine pp) T_PI;
          direction = direction_from_affine L T_PI_align (sitk (st1 ! a));
          origin = origin_from_affine L T_PI_align (sitk (st1 ! a));
          st2 = st1[a := set_geometry (st1 ! a) direction origin];
          slice_3D = st2 ! a;
          fname = filename slice_3D;
          num = slice_number slice_3D
      in
     (case extract_plane0 L (sitk slice_3D) of
        Inl e \<Rightarrow> (st2, Inl e)
      | Inr slice_2D_sitk \<Rightarrow>
          if use_fixed_mask self
          then
            (case extract_plane0 L (sitk_mask slice_3D) of
               Inl e \<Rightarrow> (st2, Inl e)
             | Inr mask_2D_sitk \<Rightarrow>
                 (case Multiply slice_2D_sitk (Cast L mask_2D_sitk) of
                    Inl e \<Rightarrow> (st2, Inl e)
                  | Inr masked \<Rightarrow> (st2, Inr (Slice_from_sitk_image masked fname num))))
          else (st2, Inr (Slice_from_sitk_image slice_2D_sitk fname num))))))))"

text \<open>\<^verbatim>\<open>_get_2D_projected_and_masked_slices\<close>: the loop over \<^verbatim>\<open>range(0, _N_slices)\<close>.\<close>

fun project_loop ::
  "('s, 'p::times, 'm) library \<Rightarrow> ('s, 'p, 'm) registration \<Rightarrow> ('s, 'p, 'm) stack
   \<Rightarrow> 's affine3d list \<Rightarrow> nat list \<Rightarrow> ('s, 'p, 'm) store
   \<Rightarrow> ('s, 'p, 'm) store \<times> (error + ('s, 'p) slice2 list)" where
  "project_loop L self stack pps [] st = (st, Inr [])"
| "project_loop L self stack pps (i # is) st =
     (case project_slice L self stack pps i st of
        (st', Inl e) \<Rightarrow> (st', Inl e)
      | (st', Inr s) \<Rightarrow>
          (case project_loop L self stack pps is st' of
             (st'', Inl e) \<Rightarrow> (st'', Inl e)
           | (st'', Inr ss) \<Rightarrow> (st'', Inr (s # ss))))"

definition get_2D_projected_and_masked_slices ::
  "('s, 'p::times, 'm) library \<Rightarrow> ('s, 'p, 'm) registration \<Rightarrow> ('s, 'p, 'm) stack
   \<Rightarrow> 's affine3d list \<Rightarrow> ('s, 'p, 'm) store
   \<Rightarrow> ('s, 'p, 'm) store \<times> (error + ('s, 'p) slice2 list)" where
  "get_2D_projected_and_masked_slices L self stack transforms_PP_3D_sitk st =
     project_loop L self stack transforms_PP_3D_sitk [0..<init_N_slices self] st"

section \<open>The correction composer\<close>

text \<open>
  The body of the loop of \<^verbatim>\<open>_apply_motion_correction\<close> at index \<open>i\<close>. The loop state is
  the variable \<^verbatim>\<open>transform_2D_sitk\<close> (which the body rebinds to the inverse it builds),
  the store and the transforms assigned to \<^verbatim>\<open>registration_transforms_sitk\<close> so far.
\<close>

definition correction_step ::
  "('s::zero, 'p, 'm) library \<Rightarrow> 's list list \<Rightarrow> 's affine3d list \<Rightarrow> nat list \<Rightarrow> nat
   \<Rightarrow> 's euler2d \<times> ('s, 'p, 'm) store \<times> 's affine3d list
   \<Rightarrow> ('s, 'p, 'm) store \<times> (error + 's euler2d \<times> 's affine3d list)" where
  "correction_step L params transforms_PP_3D_sitk slices i state =
     (case state of
        (transform_2D_sitk, st, regs) \<Rightarrow>
     (case py_index params i of
        Inl e \<Rightarrow> (st, Inl e)
      | Inr row \<Rightarrow>
     (case SetParameters transform_2D_sitk row of
        Inl e \<Rightarrow> (st, Inl e)
      | Inr t \<Rightarrow>
     (let transform_2D_sitk' = euler2d_inverse L t;
          transform_3D_sitk = get_3D_from_2D_rigid_transform_sitk transform_2D_sitk'
      in
     (case py_index transforms_PP_3D_sitk i of
        Inl e \<Rightarrow> (st, Inl e)
      | Inr pp \<Rightarrow>
     (let affine_transform_sitk = composite L (Euler3 transform_3D_sitk) pp in
     (case affine_inverse L pp of
        None \<Rightarrow> (st, Inl RuntimeError)
      | Some pp_inv \<Rightarrow>
     (let affine_transform_sitk' = composite L (Affine pp_inv) affine_transform_sitk in
     (case py_index slices i of
        Inl e \<Rightarrow> (st, Inl e)
      | Inr a \<Rightarrow>
          (st[a := update_motion_correction L (st ! a) affine_transform_sitk'],
           Inr (transform_2D_sitk', regs @ [affine_transform_sitk'])))))))))))"

fun correction_loop ::
  "('s::zero, 'p, 'm) library \<Rightarrow> 's list list \<Rightarrow> 's affine3d list \<Rightarrow> nat list \<Rightarrow> nat list
   \<Rightarrow> 's euler2d \<times> ('s, 'p, 'm) store \<times> 's affine3d list
   \<Rightarrow> ('s, 'p, 'm) store \<times> (error + 's affine3d list)" where
  "correction_loop L params pps slices [] state =
     (case state of (t, st, regs) \<Rightarrow> (st, Inr regs))"
| "correction_loop L params pps slices (i # is) state =
     (case correction_step L params pps slices i state of
        (st', Inl e) \<Rightarrow> (st', Inl e)
      | (st', Inr (t', regs')) \<Rightarrow> correction_loop L params pps slices is (t', st', regs'))"

text \<open>
  \<^verbatim>\<open>_apply_motion_correction\<close>: the corrected stack is a copy of the fixed stack under the
  file name with \<^verbatim>\<open>_registered\<close> appended, and the loop runs over
  \<^verbatim>\<open>range(0, _N_slices)\<close> on the slices of the copy.
\<close>

definition apply_motion_correction ::
  "('s::zero, 'p, 'm) library \<Rightarrow> ('s, 'p, 'm) registration \<Rightarrow> 's affine3d list
   \<Rightarrow> ('s, 'p, 'm) store
   \<Rightarrow> ('s, 'p, 'm) store \<times> (error + ('s, 'p, 'm) stack \<times> 's affine3d list)" where
  "apply_motion_correction L self transforms_PP_3D_sitk st =
     (case Stack_from_stack st (fixed self)
             (Some (stack_filename (fixed self) @ ''_registered'')) of
        (st', stack_corrected') \<Rightarrow>
     (case correction_loop L (parameters self) transforms_PP_3D_sitk
             (stack_slices stack_corrected') [0..<init_N_slices self]
             (Euler2DTransform, st', []) of
        (st'', Inl e) \<Rightarrow> (st'', Inl e)
      | (st'', Inr regs) \<Rightarrow> (st'', Inr (stack_corrected', regs))))"

section \<open>The driver\<close>

text \<open>
  The state the residual model reads, as the driver sets it up: the fixed grid is a copy
  of the image of projected slice 0.
\<close>

definition residual_model_of ::
  "('s, 'p, 'm) registration \<Rightarrow> ('s, 'p) slice2 list \<Rightarrow> ('s, 'p) slice2
   \<Rightarrow> ('s, 'p) residual_model" where
  "residual_model_of self slices_2D slice0 =
     \<lparr>N_slices = init_N_slices self, N_2D_voxels = init_N_2D_voxels self,
      degrees_of_freedom = 3, projected_slices_2D = slices_2D,
      fixed_grid_2D_sitk = sitk2 slice0\<rparr>"

text \<open>
  \<^verbatim>\<open>run_regularized_rigid_inplane_registration\<close>. The result is the store after the run
  and the object with the attributes the run assigns, or the exception.

  \<^verbatim>\<open>transforms_sitk\<close> is \<^verbatim>\<open>[sitk.Euler2DTransform()] * N\<close>: one object at address 0 of a
  heap of its own, referred to N times. The objective handed to the solver is the
  residual of \<^verbatim>\<open>_get_residual_data_fit\<close> on that heap; the heap the solver's calls leave
  behind is dropped with the local variable. (The transform
  \<^verbatim>\<open>_transform_PI_fixed_2D_sitk\<close> and the elapsed time, which nothing reads, are left
  out.)
\<close>

definition run_regularized_rigid_inplane_registration ::
  "('s::{zero,one}, 'p::{zero,minus,times}, 'm) library \<Rightarrow> ('s, 'p, 'm) registration
   \<Rightarrow> ('s, 'p, 'm) store \<Rightarrow> ('s, 'p, 'm) store \<times> (error + ('s, 'p, 'm) registration)" where
  "run_regularized_rigid_inplane_registration L self st =
     (case get_list_of_3D_rigid_transforms_of_slices L st (fixed self) of
        Inl e \<Rightarrow> (st, Inl e)
      | Inr transforms_PP_3D_sitk \<Rightarrow>
     (case get_2D_projected_and_masked_slices L self (fixed self) transforms_PP_3D_sitk st of
        (st1, Inl e) \<Rightarrow> (st1, Inl e)
      | (st1, Inr slices_2D) \<Rightarrow>
     (let self1 = self\<lparr>projected_slices := slices_2D\<rparr>;
          transforms_sitk = replicate (init_N_slices self) (0::nat);
          heap = [Euler2DTransform]
      in
     (case py_index slices_2D 0 of
        Inl e \<Rightarrow> (st1, Inl e)
      | Inr slice0 \<Rightarrow>
          if init_N_slices self = 0 then (st1, Inl ValueError)
          else
     (let S = residual_model_of self slices_2D slice0;
          parameters0 = replicate ((init_N_slices self - 1) * 3) 0;
          objective =
            (\<lambda>x. snd (get_residual_data_fit (resample_pixel L) S x transforms_sitk
                         sitkLinear heap))
      in
     (case least_squares L objective parameters0 of
        Inl e \<Rightarrow> (st1, Inl e)
      | Inr x \<Rightarrow>
     (case reshape_rows 3 x of
        Inl e \<Rightarrow> (st1, Inl e)
      | Inr rows \<Rightarrow>
     (let self2 = self1\<lparr>parameters := replicate 3 0 # rows\<rparr> in
     (case apply_motion_correction L self2 transforms_PP_3D_sitk st1 of
        (st2, Inl e) \<Rightarrow> (st2, Inl e)
      | (st2, Inr (corrected, regs)) \<Rightarrow>
          (st2, Inr (self2\<lparr>stack_corrected := Some corrected,
                           registration_transforms_sitk := regs\<rparr>)))))))))))"

section \<open>Notions used to state the properties of the residual model\<close>

definition same_centers :: "'s heap \<Rightarrow> 's heap \<Rightarrow> bool" where
  "same_centers h h' = (map e2_center h = map e2_center h')"

definition with_row :: "'s euler2d \<Rightarrow> 's list \<Rightarrow> 's euler2d" where
  "with_row t row = t\<lparr>e2_angle := row ! 0, e2_translation := (row ! 1, row ! 2)\<rparr>"

definition sub_list :: "('p::minus) list \<Rightarrow> 'p list \<Rightarrow> 'p list" where
  "sub_list a b = map (\<lambda>(x, y). x - y) (zip a b)"

definition group :: "'s list \<Rightarrow> nat \<Rightarrow> 's list" where
  "group v i = take 3 (drop ((i - 1) * 3) v)"

definition nda ::
  "('s, 'p) resampler \<Rightarrow> ('s, 'p) residual_model \<Rightarrow> 's list \<Rightarrow> nat list \<Rightarrow> interpolator
   \<Rightarrow> 's heap \<Rightarrow> nat \<Rightarrow> 'p list" where
  "nda rp S v ts ip h i =
     (if i = 0 then pixels2 (sitk2 (projected_slices_2D S ! 0))
      else pixels2 (Resample rp (sitk2 (projected_slices_2D S ! i)) (fixed_grid_2D_sitk S)
                      (with_row (h ! (ts ! i)) (group v i)) ip))"

definition residual_blocks ::
  "('s, 'p::minus) resampler \<Rightarrow> ('s, 'p) residual_model \<Rightarrow> 's list \<Rightarrow> nat list \<Rightarrow> interpolator
   \<Rightarrow> 's heap \<Rightarrow> 'p list list" where
  "residual_blocks rp S v ts ip h =
     map (\<lambda>i. sub_list (nda rp S v ts ip h i) (nda rp S v ts ip h (i + 1))) [0..<N_slices S - 1]"

section \<open>Notions used to state the properties of the transforms\<close>







section \<open>A concrete residual model\<close>

text \<open>
  A small model on which the theorems are run: three projected slices of 2 x 1 integer
  pixels, and a stand-in for the resampler whose value shows every field of the
  transform it was given.
\<close>

definition example_rp :: "(int, int) resampler" where
  "example_rp img g t ip k = pixels2 img ! k + e2_angle t + fst (e2_translation t) * 10 + snd (e2_translation t) * 100 + fst (e2_center t) * 1000"

definition example_image :: "int list \<Rightarrow> (int, int) image2" where
  "example_image px = \<lparr>size2 = (2, 1), origin2 = (0, 0), spacing2 = (1, 1),
     direction2 = [1, 0, 0, 1], pixels2 = px\<rparr>"

definition example_model :: "(int, int) residual_model" where
  "example_model = \<lparr>N_slices = 3, N_2D_voxels = 2, degrees_of_freedom = 3,
     projected_slices_2D =
       [\<lparr>sitk2 = example_image [5, 7], filename2 = ''s'', slice_number2 = 0\<rparr>,
        \<lparr>sitk2 = example_image [1, 2], filename2 = ''s'', slice_number2 = 1\<rparr>,
        \<lparr>sitk2 = example_image [4, 4], filename2 = ''s'', slice_number2 = 2\<rparr>],
     fixed_grid_2D_sitk = example_image [5, 7]\<rparr>"

section \<open>A concrete library and concrete stacks\<close>

text \<open>
  A stand-in library on integers in which every 3D transform acts as the translation
  it carries: composing adds translations, inverting negates them. The solver stand-in
  evaluates the objective once and returns a vector of ones.
\<close>

definition add3 :: "int \<times> int \<times> int \<Rightarrow> int \<times> int \<times> int \<Rightarrow> int \<times> int \<times> int" where
  "add3 u v = (fst u + fst v, fst (snd u) + fst (snd v), snd (snd u) + snd (snd v))"

definition neg3 :: "int \<times> int \<times> int \<Rightarrow> int \<times> int \<times> int" where
  "neg3 u = (- fst u, - fst (snd u), - snd (snd u))"

definition translation_of :: "int transform3 \<Rightarrow> int \<times> int \<times> int" where
  "translation_of T = (case T of Euler3 e \<Rightarrow> e3_translation e | Affine a \<Rightarrow> aff_translation a)"


definition example_library :: "(int, int, int) library" where
  "example_library =
     \<lparr>resample_pixel = example_rp,
      euler2d_inverse =
        (\<lambda>t. t\<lparr>e2_angle := - e2_angle t,
                e2_translation := (- fst (e2_translation t), - snd (e2_translation t))\<rparr>),
      affine_inverse = (\<lambda>T. Some (T\<lparr>aff_translation := neg3 (aff_translation T)\<rparr>)),
      composite =
        (\<lambda>outer inner.
           inner\<lparr>aff_translation := add3 (translation_of outer) (aff_translation inner)\<rparr>),
      affine_from_image =
        (\<lambda>img. AffineTransform3\<lparr>aff_matrix := direction3 img, aff_translation := origin3 img\<rparr>),
      direction_from_affine = (\<lambda>T img. aff_matrix T),
      origin_from_affine = (\<lambda>T img. aff_translation T),
      collapse_direction = (\<lambda>d. Some [d ! 0, d ! 1, d ! 3, d ! 4]),
      cast_pixel = (\<lambda>m. m),
      update_motion_correction =
        (\<lambda>s T. s\<lparr>sitk := (sitk s)\<lparr>origin3 := add3 (origin3 (sitk s)) (aff_translation T)\<rparr>,
                  sitk_mask :=
                    (sitk_mask s)\<lparr>origin3 := add3 (origin3 (sitk_mask s)) (aff_translation T)\<rparr>\<rparr>),
      least_squares =
        (\<lambda>f x0. case f x0 of Inl e \<Rightarrow> Inl e | Inr r \<Rightarrow> Inr (map (\<lambda>v. 1) x0))\<rparr>"

definition example_image3 :: "nat \<Rightarrow> int \<Rightarrow> 'q list \<Rightarrow> (int, 'q) image3" where
  "example_image3 nz z px =
     \<lparr>size3 = (2, 1, nz), origin3 = (0, 0, z), spacing3 = (1, 1, 1),
      direction3 = [1, 0, 0, 0, 1, 0, 0, 0, 1], pixels3 = px\<rparr>"

definition example_slice :: "int list \<Rightarrow> nat \<Rightarrow> (int, int, int) slice3" where
  "example_slice px z =
     \<lparr>sitk = example_image3 1 (int z) px, sitk_mask = example_image3 1 (int z) [1, 0],
      filename = ''stack'', slice_number = z\<rparr>"

text \<open>A stack of two slices and a stack of one slice, each with its store.\<close>

definition example_store :: "(int, int, int) store" where
  "example_store = [example_slice [5, 7] 0, example_slice [1, 2] 1]"

definition example_stack :: "(int, int, int) stack" where
  "example_stack =
     \<lparr>stack_sitk = example_image3 2 0 [5, 7, 1, 2], stack_slices = [0, 1],
      stack_filename = ''stack''\<rparr>"






section \<open>Properties of the residual model\<close>


lemma py_index_Inr: "i < length xs \<Longrightarrow> py_index xs i = Inr (xs ! i)"
  by (simp add: py_index_def)

lemma SetParameters_3: "length row = 3 \<Longrightarrow> SetParameters t row = Inr (with_row t row)"
  by (auto simp: SetParameters_def with_row_def split: list.splits)

lemma SetParameters_not3: "length row \<noteq> 3 \<Longrightarrow> SetParameters t row = Inl RuntimeError"
  by (auto simp: SetParameters_def split: list.splits)

lemma with_row_center: "e2_center (with_row t row) = e2_center t"
  by (simp add: with_row_def)

lemma with_row_cong: "e2_center t = e2_center t' \<Longrightarrow> with_row t row = with_row t' row"
  by (cases t, cases t') (simp add: with_row_def)

lemma set_parameters_at_cases:
  "set_parameters_at h a row =
     (if a < length h \<and> length row = 3 then Inr (h[a := with_row (h ! a) row]) else Inl RuntimeError)"
  by (cases "length row = 3") (auto simp: set_parameters_at_def SetParameters_3 SetParameters_not3)

lemma same_centers_refl: "same_centers h h"
  by (simp add: same_centers_def)

lemma same_centers_sym: "same_centers h h' \<Longrightarrow> same_centers h' h"
  by (simp add: same_centers_def)

lemma same_centers_trans: "same_centers h h' \<Longrightarrow> same_centers h' h'' \<Longrightarrow> same_centers h h''"
  by (simp add: same_centers_def)

lemma same_centers_update:
  "a < length h \<Longrightarrow> same_centers (h[a := with_row (h ! a) row]) h"
  by (simp add: same_centers_def map_update with_row_center list_update_same_conv)

lemma same_centers_length: "same_centers h h' \<Longrightarrow> length h = length h'"
  unfolding same_centers_def by (metis length_map)

lemma same_centers_nth: "same_centers h h' \<Longrightarrow> a < length h \<Longrightarrow> e2_center (h ! a) = e2_center (h' ! a)"
  unfolding same_centers_def by (metis length_map nth_map)

lemma same_centers_update2:
  assumes "same_centers h1 h2" "a < length h1"
  shows "same_centers (h1[a := with_row (h1 ! a) row]) (h2[a := with_row (h2 ! a) row])"
    and "h1[a := with_row (h1 ! a) row] ! a = h2[a := with_row (h2 ! a) row] ! a"
proof -
  have l: "length h2 = length h1" using assms(1) by (simp add: same_centers_length)
  have c: "e2_center (h1 ! a) = e2_center (h2 ! a)" using assms by (rule same_centers_nth)
  have "map e2_center (h1[a := with_row (h1 ! a) row]) = (map e2_center h1)[a := e2_center (h1 ! a)]"
    by (simp only: map_update with_row_center)
  moreover have "map e2_center (h2[a := with_row (h2 ! a) row]) = (map e2_center h2)[a := e2_center (h2 ! a)]"
    by (simp only: map_update with_row_center)
  moreover have "map e2_center h1 = map e2_center h2"
    using assms(1) by (simp only: same_centers_def)
  ultimately show "same_centers (h1[a := with_row (h1 ! a) row]) (h2[a := with_row (h2 ! a) row])"
    unfolding same_centers_def using c by (simp only:)
  have "with_row (h1 ! a) row = with_row (h2 ! a) row"
    using c by (rule with_row_cong)
  then show "h1[a := with_row (h1 ! a) row] ! a = h2[a := with_row (h2 ! a) row] ! a"
    using assms(2) l by (simp only: nth_list_update_eq)
qed

lemma residual_step_cases:
  "residual_step rp S ps ts ip i h acc =
     (if i + 1 < length ts \<and> i < length ps
      then (if ts ! (i + 1) < length h \<and> length (ps ! i) = 3
            then (h[ts ! (i + 1) := with_row (h ! (ts ! (i + 1))) (ps ! i)],
                  residual_block rp S ip i (with_row (h ! (ts ! (i + 1))) (ps ! i)) acc)
            else (h, Inl RuntimeError))
      else (h, Inl IndexError))"
  by (simp add: residual_step_def py_index_def set_parameters_at_cases)

lemma residual_step_centers:
  "same_centers (fst (residual_step rp S ps ts ip i h acc)) h"
  by (simp add: residual_step_cases same_centers_refl same_centers_update)

lemma residual_loop_centers:
  "same_centers (fst (residual_loop rp S ps ts ip is h acc)) h"
proof (induction "is" arbitrary: h acc)
  case Nil
  show ?case by (simp add: same_centers_refl)
next
  case (Cons i "is")
  obtain h' r where st: "residual_step rp S ps ts ip i h acc = (h', r)"
    by (cases "residual_step rp S ps ts ip i h acc")
  have h': "same_centers h' h"
    using residual_step_centers [of rp S ps ts ip i h acc] by (simp add: st)
  show ?case
  proof (cases r)
    case (Inl e)
    then show ?thesis using st h' by simp
  next
    case (Inr acc')
    have "same_centers (fst (residual_loop rp S ps ts ip is h' acc')) h'"
      by (rule Cons.IH)
    then show ?thesis using st Inr h' by (simp add: same_centers_trans)
  qed
qed

lemma residual_step_cong:
  assumes "same_centers h1 h2"
  shows "snd (residual_step rp S ps ts ip i h1 acc) = snd (residual_step rp S ps ts ip i h2 acc)"
    and "same_centers (fst (residual_step rp S ps ts ip i h1 acc))
           (fst (residual_step rp S ps ts ip i h2 acc))"
proof -
  have l: "length h2 = length h1" using assms by (simp add: same_centers_length)
  have u: "a < length h1 \<Longrightarrow>
      h1[a := with_row (h1 ! a) row] ! a = h2[a := with_row (h2 ! a) row] ! a" for a row
    using same_centers_update2(2) [OF assms] by blast
  have u': "a < length h1 \<Longrightarrow>
      with_row (h1 ! a) row = with_row (h2 ! a) row" for a row
    using u [of a row] l by simp
  have s: "a < length h1 \<Longrightarrow>
      same_centers (h1[a := with_row (h1 ! a) row]) (h2[a := with_row (h2 ! a) row])" for a row
    using same_centers_update2(1) [OF assms] by blast
  show "snd (residual_step rp S ps ts ip i h1 acc) = snd (residual_step rp S ps ts ip i h2 acc)"
    using u' by (simp add: residual_step_cases l)
  show "same_centers (fst (residual_step rp S ps ts ip i h1 acc))
           (fst (residual_step rp S ps ts ip i h2 acc))"
    using s assms by (simp add: residual_step_cases l)
qed

lemma residual_loop_cong:
  "same_centers h1 h2 \<Longrightarrow>
   snd (residual_loop rp S ps ts ip is h1 acc) = snd (residual_loop rp S ps ts ip is h2 acc)"
proof (induction "is" arbitrary: h1 h2 acc)
  case Nil
  show ?case by simp
next
  case (Cons i "is")
  obtain h1' r1 where s1: "residual_step rp S ps ts ip i h1 acc = (h1', r1)"
    by (cases "residual_step rp S ps ts ip i h1 acc")
  obtain h2' r2 where s2: "residual_step rp S ps ts ip i h2 acc = (h2', r2)"
    by (cases "residual_step rp S ps ts ip i h2 acc")
  have r: "r1 = r2"
    using residual_step_cong(1) [OF Cons.prems, of rp S ps ts ip i acc] by (simp add: s1 s2)
  have c: "same_centers h1' h2'"
    using residual_step_cong(2) [OF Cons.prems, of rp S ps ts ip i acc] by (simp add: s1 s2)
  show ?case
  proof (cases r1)
    case (Inl e)
    then show ?thesis using s1 s2 r by simp
  next
    case (Inr acc')
    then show ?thesis using s1 s2 r Cons.IH [OF c] by simp
  qed
qed

lemma get_residual_unfold:
  "get_residual_data_fit rp S v ts ip h =
     (if N_slices S = 0 then (h, Inl ValueError)
      else (case reshape_rows (degrees_of_freedom S) v of
              Inl e \<Rightarrow> (h, Inl e)
            | Inr ps \<Rightarrow>
           (case py_index (projected_slices_2D S) 0 of
              Inl e \<Rightarrow> (h, Inl e)
            | Inr sl0 \<Rightarrow>
                (fst (residual_loop rp S ps ts ip [0..<N_slices S - 1] h
                       (replicate (N_slices S - 1) (replicate (N_2D_voxels S) 0),
                        GetArrayFromImage (sitk2 sl0))),
                 (case snd (residual_loop rp S ps ts ip [0..<N_slices S - 1] h
                       (replicate (N_slices S - 1) (replicate (N_2D_voxels S) 0),
                        GetArrayFromImage (sitk2 sl0))) of
                    Inl e \<Rightarrow> Inl e
                  | Inr acc \<Rightarrow> Inr (concat (fst acc)))))))"
  by (simp add: get_residual_data_fit_def Let_def split: sum.splits prod.splits)

lemma get_residual_centers:
  "same_centers (fst (get_residual_data_fit rp S v ts ip h)) h"
  by (simp add: get_residual_unfold same_centers_refl residual_loop_centers split: sum.splits)

lemma get_residual_cong:
  assumes "same_centers h1 h2"
  shows "snd (get_residual_data_fit rp S v ts ip h1) = snd (get_residual_data_fit rp S v ts ip h2)"
  by (simp add: get_residual_unfold residual_loop_cong [OF assms] split: sum.splits)

lemma length_sub_list: "length (sub_list a b) = min (length a) (length b)"
  by (simp add: sub_list_def)

lemma Resample_size: "size2 (Resample rp img G t ip) = size2 G"
  by (simp add: Resample_def)

lemma Resample_length: "length (pixels2 (Resample rp img G t ip)) = voxels2 G"
  by (simp add: Resample_def)

lemma residual_block_ok:
  assumes "i + 1 < length (projected_slices_2D S)" "i < length res"
    and "length (res ! i) = voxels2 (fixed_grid_2D_sitk S)"
    and "shape arr = (snd (size2 (fixed_grid_2D_sitk S)), fst (size2 (fixed_grid_2D_sitk S)))"
    and "length (data arr) = voxels2 (fixed_grid_2D_sitk S)"
  shows "residual_block rp S ip i t (res, arr) =
     Inr (res[i := sub_list (data arr)
                     (pixels2 (Resample rp (sitk2 (projected_slices_2D S ! (i + 1)))
                                 (fixed_grid_2D_sitk S) t ip))],
          GetArrayFromImage (Resample rp (sitk2 (projected_slices_2D S ! (i + 1)))
                                 (fixed_grid_2D_sitk S) t ip))"
proof -
  let ?R = "Resample rp (sitk2 (projected_slices_2D S ! (i + 1))) (fixed_grid_2D_sitk S) t ip"
  have p: "py_index (projected_slices_2D S) (i + 1) = Inr (projected_slices_2D S ! (i + 1))"
    using assms(1) by (simp add: py_index_def)
  have s: "nd_sub arr (GetArrayFromImage ?R) =
      Inr \<lparr>shape = shape arr, data = sub_list (data arr) (pixels2 ?R)\<rparr>"
    using assms(4) by (simp add: nd_sub_def GetArrayFromImage_def Resample_size sub_list_def)
  have l: "length (sub_list (data arr) (pixels2 ?R)) = length (res ! i)"
    using assms(3,5) by (simp add: length_sub_list Resample_length)
  have a: "assign_row res i (sub_list (data arr) (pixels2 ?R)) =
      Inr (res[i := sub_list (data arr) (pixels2 ?R)])"
    using assms(2) l by (simp add: assign_row_def)
  show ?thesis
    unfolding residual_block_def using p s a by (simp add: Let_def flatten_def)
qed


lemma rows_nth:
  assumes "length v = 3 * n" "k < n"
  shows "map (\<lambda>k. take 3 (drop (k * 3) v)) [0..<n] ! k = group v (k + 1)"
    and "length (group v (k + 1)) = 3"
  using assms by (simp_all add: group_def)

lemma nda_Suc:
  "nda rp S v ts ip h (Suc k) =
     pixels2 (Resample rp (sitk2 (projected_slices_2D S ! Suc k)) (fixed_grid_2D_sitk S)
                (with_row (h ! (ts ! Suc k)) (group v (Suc k))) ip)"
  by (simp add: nda_def)

lemma length_nda_Suc: "length (nda rp S v ts ip h (Suc k)) = voxels2 (fixed_grid_2D_sitk S)"
  by (simp add: nda_Suc Resample_length)

lemma residual_loop_ok:
  assumes N: "length (projected_slices_2D S) = N_slices S" "length ts = N_slices S"
      "1 \<le> N_slices S"
    and ts: "\<forall>a\<in>set ts. a < length h"
    and v: "length v = 3 * (N_slices S - 1)"
    and sc: "same_centers hk h"
    and k: "k \<le> N_slices S - 1"
    and res: "length res = N_slices S - 1"
      "\<forall>j<N_slices S - 1. length (res ! j) = voxels2 (fixed_grid_2D_sitk S)"
    and arr: "arr = \<lparr>shape = (snd (size2 (fixed_grid_2D_sitk S)), fst (size2 (fixed_grid_2D_sitk S))),
                     data = nda rp S v ts ip h k\<rparr>"
      "length (nda rp S v ts ip h k) = voxels2 (fixed_grid_2D_sitk S)"
  shows "\<exists>h' arr'.
     residual_loop rp S (map (\<lambda>k. take 3 (drop (k * 3) v)) [0..<N_slices S - 1]) ts ip
       [k..<N_slices S - 1] hk (res, arr)
     = (h', Inr (take k res @
                 map (\<lambda>i. sub_list (nda rp S v ts ip h i) (nda rp S v ts ip h (i + 1)))
                   [k..<N_slices S - 1], arr'))"
  using sc k res arr
proof (induction "N_slices S - 1 - k" arbitrary: k hk res arr)
  case 0
  then have "k = N_slices S - 1" by simp
  then show ?case using "0.prems"(3) by simp
next
  case (Suc d)
  let ?n = "N_slices S - 1"
  let ?G = "fixed_grid_2D_sitk S"
  let ?ps = "map (\<lambda>k. take 3 (drop (k * 3) v)) [0..<?n]"
  let ?B = "\<lambda>i. sub_list (nda rp S v ts ip h i) (nda rp S v ts ip h (i + 1))"
  let ?a = "ts ! (k + 1)"
  have kn: "k < ?n" using Suc.hyps(2) by simp
  have k1: "k + 1 < length ts" using kn N by simp
  have a_h: "?a < length h" using ts k1 nth_mem by blast
  have lh: "length hk = length h" using Suc.prems(1) by (rule same_centers_length)
  have row: "?ps ! k = group v (k + 1)" "length (group v (k + 1)) = 3"
    using rows_nth [OF v kn] by simp_all
  have wr: "with_row (hk ! ?a) (group v (k + 1)) = with_row (h ! ?a) (group v (k + 1))"
  proof (rule with_row_cong)
    show "e2_center (hk ! ?a) = e2_center (h ! ?a)"
      using same_centers_nth [OF Suc.prems(1), of ?a] a_h lh by simp
  qed
  let ?t = "with_row (h ! ?a) (group v (k + 1))"
  let ?h' = "hk[?a := ?t]"
  let ?R = "Resample rp (sitk2 (projected_slices_2D S ! (k + 1))) ?G ?t ip"
  have step: "residual_step rp S ?ps ts ip k hk (res, arr) =
      (?h', residual_block rp S ip k ?t (res, arr))"
    using k1 kn a_h lh row wr by (simp add: residual_step_cases)
  have pixR: "pixels2 ?R = nda rp S v ts ip h (k + 1)"
    by (simp add: nda_Suc)
  have blk: "residual_block rp S ip k ?t (res, arr) =
      Inr (res[k := sub_list (data arr) (pixels2 ?R)], GetArrayFromImage ?R)"
  proof (rule residual_block_ok)
    show "k + 1 < length (projected_slices_2D S)" using kn N by simp
    show "k < length res" using kn Suc.prems(3) by simp
    show "length (res ! k) = voxels2 ?G" using kn Suc.prems(4) by simp
    show "shape arr = (snd (size2 ?G), fst (size2 ?G))" using Suc.prems(5) by simp
    show "length (data arr) = voxels2 ?G" using Suc.prems(5,6) by simp
  qed
  have darr: "data arr = nda rp S v ts ip h k" using Suc.prems(5) by simp
  let ?res' = "res[k := ?B k]"
  let ?arr' = "GetArrayFromImage ?R"
  have blk': "residual_block rp S ip k ?t (res, arr) = Inr (?res', ?arr')"
    using blk pixR darr by simp
  have sc': "same_centers ?h' h"
  proof -
    have "same_centers (hk[?a := with_row (hk ! ?a) (group v (k + 1))]) hk"
      using a_h lh by (simp add: same_centers_update)
    then show ?thesis using wr Suc.prems(1) same_centers_trans by metis
  qed
  have lenB: "length (?B k) = voxels2 ?G"
    using Suc.prems(6) by (simp add: length_sub_list length_nda_Suc)
  have IH: "\<exists>h'' arr''.
     residual_loop rp S ?ps ts ip [Suc k..<?n] ?h' (?res', ?arr')
     = (h'', Inr (take (Suc k) ?res' @ map ?B [Suc k..<?n], arr''))"
  proof (rule Suc.hyps(1))
    show "d = N_slices S - 1 - Suc k" using Suc.hyps(2) by simp
    show "same_centers ?h' h" by (rule sc')
    show "Suc k \<le> ?n" using kn by simp
    show "length ?res' = ?n" using Suc.prems(3) by simp
    show "\<forall>j<?n. length (?res' ! j) = voxels2 ?G"
      using kn Suc.prems(3,4) lenB by (auto simp: nth_list_update)
    show "?arr' = \<lparr>shape = (snd (size2 ?G), fst (size2 ?G)), data = nda rp S v ts ip h (Suc k)\<rparr>"
      using pixR by (simp add: GetArrayFromImage_def Resample_size)
    show "length (nda rp S v ts ip h (Suc k)) = voxels2 ?G" by (rule length_nda_Suc)
  qed
  have tk: "take (Suc k) ?res' = take k res @ [?B k]"
    using kn Suc.prems(3) by (simp add: take_Suc_conv_app_nth)
  have upt: "[k..<?n] = k # [Suc k..<?n]" using kn by (simp add: upt_conv_Cons)
  from IH obtain h'' arr'' where
    "residual_loop rp S ?ps ts ip [Suc k..<?n] ?h' (?res', ?arr')
     = (h'', Inr (take (Suc k) ?res' @ map ?B [Suc k..<?n], arr''))" by blast
  then have "residual_loop rp S ?ps ts ip [k..<?n] hk (res, arr)
     = (h'', Inr (take k res @ map ?B [k..<?n], arr''))"
    unfolding upt using step blk' tk by simp
  then show ?case by blast
qed


lemma nda0_length:
  assumes "size2 (fixed_grid_2D_sitk S) = size2 (sitk2 (projected_slices_2D S ! 0))"
    and "wf_image2 (sitk2 (projected_slices_2D S ! 0))"
  shows "length (nda rp S v ts ip h 0) = voxels2 (fixed_grid_2D_sitk S)"
  using assms by (simp add: nda_def wf_image2_def voxels2_def)

lemma length_nda:
  assumes "size2 (fixed_grid_2D_sitk S) = size2 (sitk2 (projected_slices_2D S ! 0))"
    and "wf_image2 (sitk2 (projected_slices_2D S ! 0))"
  shows "length (nda rp S v ts ip h i) = voxels2 (fixed_grid_2D_sitk S)"
  using nda0_length [OF assms] length_nda_Suc by (cases i) auto

lemma length_residual_blocks:
  assumes "size2 (fixed_grid_2D_sitk S) = size2 (sitk2 (projected_slices_2D S ! 0))"
    and "wf_image2 (sitk2 (projected_slices_2D S ! 0))"
  shows "length (concat (residual_blocks rp S v ts ip h))
         = (N_slices S - 1) * voxels2 (fixed_grid_2D_sitk S)"
proof -
  have "map length (residual_blocks rp S v ts ip h)
        = map (\<lambda>i. voxels2 (fixed_grid_2D_sitk S)) [0..<N_slices S - 1]"
    by (simp add: residual_blocks_def length_sub_list length_nda [OF assms])
  then show ?thesis
    by (simp add: length_concat sum_list_triv)
qed







lemma residual_postcondition_aux:
  assumes "2 \<le> N_slices S"
    and "length v = 3 * (N_slices S - 1)"
    and "degrees_of_freedom S = 3"
    and "length (projected_slices_2D S) = N_slices S"
    and "length ts = N_slices S"
    and "\<forall>a\<in>set ts. a < length h"
    and "size2 (fixed_grid_2D_sitk S) = size2 (sitk2 (projected_slices_2D S ! 0))"
    and "wf_image2 (sitk2 (projected_slices_2D S ! 0))"
    and "N_2D_voxels S = voxels2 (fixed_grid_2D_sitk S)"
  shows "snd (get_residual_data_fit rp S v ts sitkLinear h)
           = Inr (concat (residual_blocks rp S v ts sitkLinear h))
         \<and> length (concat (residual_blocks rp S v ts sitkLinear h))
           = (N_slices S - 1) * voxels2 (fixed_grid_2D_sitk S)"
proof -
  let ?n = "N_slices S - 1"
  let ?G = "fixed_grid_2D_sitk S"
  let ?ps = "map (\<lambda>k. take 3 (drop (k * 3) v)) [0..<?n]"
  let ?res = "replicate ?n (replicate (N_2D_voxels S) (0::'b))"
  let ?arr = "GetArrayFromImage (sitk2 (projected_slices_2D S ! 0))"
  have rs: "reshape_rows (degrees_of_freedom S) v = Inr ?ps"
    using assms(2,3) by (simp add: reshape_rows_def)
  have p0: "py_index (projected_slices_2D S) 0 = Inr (projected_slices_2D S ! 0)"
    using assms(1,4) by (simp add: py_index_def)
  have loop: "\<exists>h' arr'.
     residual_loop rp S ?ps ts sitkLinear [0..<?n] h (?res, ?arr)
     = (h', Inr (take 0 ?res @
                 map (\<lambda>i. sub_list (nda rp S v ts sitkLinear h i) (nda rp S v ts sitkLinear h (i + 1)))
                   [0..<?n], arr'))"
  proof (rule residual_loop_ok)
    show "length (projected_slices_2D S) = N_slices S" by (rule assms(4))
    show "length ts = N_slices S" by (rule assms(5))
    show "1 \<le> N_slices S" using assms(1) by simp
    show "\<forall>a\<in>set ts. a < length h" by (rule assms(6))
    show "length v = 3 * ?n" by (rule assms(2))
    show "same_centers h h" by (rule same_centers_refl)
    show "0 \<le> ?n" by simp
    show "length ?res = ?n" by simp
    show "\<forall>j<?n. length (?res ! j) = voxels2 ?G" using assms(9) by simp
    show "?arr = \<lparr>shape = (snd (size2 ?G), fst (size2 ?G)), data = nda rp S v ts sitkLinear h 0\<rparr>"
      using assms(7) by (simp add: GetArrayFromImage_def nda_def)
    show "length (nda rp S v ts sitkLinear h 0) = voxels2 ?G"
      using assms(7,8) by (rule nda0_length)
  qed
  then obtain h' arr' where
    "residual_loop rp S ?ps ts sitkLinear [0..<?n] h (?res, ?arr)
     = (h', Inr (residual_blocks rp S v ts sitkLinear h, arr'))"
    by (auto simp: residual_blocks_def)
  then have "snd (get_residual_data_fit rp S v ts sitkLinear h)
           = Inr (concat (residual_blocks rp S v ts sitkLinear h))"
    using assms(1) rs p0 by (simp add: get_residual_unfold)
  then show ?thesis
    using length_residual_blocks [OF assms(7,8)] by simp
qed

section \<open>The store only grows\<close>

lemma prefix_list_update:
  assumes "prefix xs ys" "length xs \<le> a"
  shows "prefix xs (ys[a := v])"
proof -
  from assms(1) obtain zs where "ys = xs @ zs" by (auto simp: prefix_def)
  then show ?thesis using assms(2) by (simp add: list_update_append)
qed

lemma prefix_nth: "prefix xs ys \<Longrightarrow> a < length xs \<Longrightarrow> ys ! a = xs ! a"
  by (auto simp: prefix_def nth_append)

lemma copy_slices_Cons:
  "copy_slices st (a # as) =
     (fst (copy_slices (st @ [st ! a]) as), length st # snd (copy_slices (st @ [st ! a]) as))"
  by (simp add: Slice_from_slice_def split: prod.splits)

lemma copy_slices_snd:
  "snd (copy_slices st as) = [length st..<length st + length as]"
proof (induction as arbitrary: st)
  case Nil
  show ?case by simp
next
  case (Cons a as)
  have "snd (copy_slices (st @ [st ! a]) as) = [Suc (length st)..<Suc (length st) + length as]"
    using Cons.IH [of "st @ [st ! a]"] by simp
  then show ?case
    by (simp add: copy_slices_Cons upt_conv_Cons del: copy_slices.simps upt_Suc)
qed


lemma copy_slices_prefix: "prefix st (fst (copy_slices st as))"
proof (induction as arbitrary: st)
  case Nil
  show ?case by simp
next
  case (Cons a as)
  have "prefix (st @ [st ! a]) (fst (copy_slices (st @ [st ! a]) as))" by (rule Cons.IH)
  then have "prefix st (fst (copy_slices (st @ [st ! a]) as))"
    using prefix_order.trans prefixI by blast
  then show ?case by (simp add: copy_slices_Cons del: copy_slices.simps)
qed

lemma copy_slices_length: "length (fst (copy_slices st as)) = length st + length as"
proof (induction as arbitrary: st)
  case Nil
  show ?case by simp
next
  case (Cons a as)
  show ?case using Cons.IH [of "st @ [st ! a]"]
    by (simp add: copy_slices_Cons del: copy_slices.simps)
qed

lemma Stack_from_stack_eq:
  "Stack_from_stack st s fname =
     (fst (copy_slices st (stack_slices s)),
      s\<lparr>stack_slices := [length st..<length st + length (stack_slices s)],
        stack_filename := (case fname of None \<Rightarrow> stack_filename s | Some f \<Rightarrow> f)\<rparr>)"
proof -
  obtain st' as where c: "copy_slices st (stack_slices s) = (st', as)"
    by (cases "copy_slices st (stack_slices s)")
  have "as = [length st..<length st + length (stack_slices s)]"
    using copy_slices_snd [of st "stack_slices s"] by (simp add: c)
  then show ?thesis by (simp add: Stack_from_stack_def c)
qed

lemma project_slice_prefix: "prefix st (fst (project_slice L self stack pps i st))"
proof -
  have a: "prefix st (st @ [x])" for x :: "('a, 'b, 'c) slice3" by simp
  have b: "prefix st ((st @ [x])[length st := y])" for x y :: "('a, 'b, 'c) slice3" by simp
  show ?thesis
    using a b
    by (simp add: project_slice_def Slice_from_slice_def Let_def split: sum.splits prod.splits)
qed

lemma project_loop_Cons:
  "project_loop L self stack pps (i # is) st =
     (case snd (project_slice L self stack pps i st) of
        Inl e \<Rightarrow> (fst (project_slice L self stack pps i st), Inl e)
      | Inr s \<Rightarrow>
          (fst (project_loop L self stack pps is (fst (project_slice L self stack pps i st))),
           (case snd (project_loop L self stack pps is (fst (project_slice L self stack pps i st))) of
              Inl e \<Rightarrow> Inl e
            | Inr ss \<Rightarrow> Inr (s # ss))))"
  by (simp split: prod.splits sum.splits)

lemma project_loop_prefix: "prefix st (fst (project_loop L self stack pps is st))"
proof (induction "is" arbitrary: st)
  case Nil
  show ?case by simp
next
  case (Cons i "is")
  let ?st' = "fst (project_slice L self stack pps i st)"
  have p1: "prefix st ?st'" by (rule project_slice_prefix)
  have "prefix ?st' (fst (project_loop L self stack pps is ?st'))" by (rule Cons.IH)
  then have "prefix st (fst (project_loop L self stack pps is ?st'))"
    using p1 prefix_order.trans by blast
  then show ?case using p1
    by (simp add: project_loop_Cons del: project_loop.simps split: sum.splits)
qed

section \<open>Properties of the correction composer and the driver\<close>

lemma correction_step_cases:
  "correction_step L params pps slices i (t, st, regs) =
     (if i < length params then
        if length (params ! i) = 3 then
          if i < length pps then
            (case affine_inverse L (pps ! i) of
               None \<Rightarrow> (st, Inl RuntimeError)
             | Some pp_inv \<Rightarrow>
                 if i < length slices then
                   (st[slices ! i :=
                         update_motion_correction L (st ! (slices ! i))
                           (composite L (Affine pp_inv)
                              (composite L
                                 (Euler3 (get_3D_from_2D_rigid_transform_sitk
                                            (euler2d_inverse L (with_row t (params ! i)))))
                                 (pps ! i)))],
                    Inr (euler2d_inverse L (with_row t (params ! i)),
                         regs @ [composite L (Affine pp_inv)
                              (composite L
                                 (Euler3 (get_3D_from_2D_rigid_transform_sitk
                                            (euler2d_inverse L (with_row t (params ! i)))))
                                 (pps ! i))]))
                 else (st, Inl IndexError))
          else (st, Inl IndexError)
        else (st, Inl RuntimeError)
      else (st, Inl IndexError))"
  by (cases "length (params ! i) = 3")
     (simp_all add: correction_step_def py_index_def SetParameters_3 SetParameters_not3 Let_def
        split: option.splits)

lemma correction_step_prefix:
  assumes "prefix st0 st" "\<forall>a\<in>set slices. length st0 \<le> a"
  shows "prefix st0 (fst (correction_step L params pps slices i (t, st, regs)))"
proof -
  have "i < length slices \<Longrightarrow> prefix st0 (st[slices ! i := v])" for v
    using assms by (simp add: prefix_list_update)
  then show ?thesis using assms(1)
    by (simp add: correction_step_cases split: option.splits)
qed

lemma correction_loop_Cons:
  "correction_loop L params pps slices (i # is) (t, st, regs) =
     (case snd (correction_step L params pps slices i (t, st, regs)) of
        Inl e \<Rightarrow> (fst (correction_step L params pps slices i (t, st, regs)), Inl e)
      | Inr (t', regs') \<Rightarrow>
          correction_loop L params pps slices is
            (t', fst (correction_step L params pps slices i (t, st, regs)), regs'))"
  by (simp split: prod.splits sum.splits)

lemma correction_loop_prefix:
  assumes "\<forall>a\<in>set slices. length st0 \<le> a"
  shows "prefix st0 st \<Longrightarrow>
         prefix st0 (fst (correction_loop L params pps slices is (t, st, regs)))"
proof (induction "is" arbitrary: t st regs)
  case Nil
  then show ?case by simp
next
  case (Cons i "is")
  let ?r = "correction_step L params pps slices i (t, st, regs)"
  have p: "prefix st0 (fst ?r)" using Cons.prems assms by (rule correction_step_prefix)
  show ?case
  proof (cases "snd ?r")
    case (Inl e)
    then show ?thesis using p by (simp add: correction_loop_Cons del: correction_loop.simps)
  next
    case (Inr x)
    obtain t' regs' where x: "x = (t', regs')" by (cases x)
    have "prefix st0 (fst (correction_loop L params pps slices is (t', fst ?r, regs')))"
      using p by (rule Cons.IH)
    then show ?thesis using Inr x
      by (simp add: correction_loop_Cons del: correction_loop.simps)
  qed
qed

lemma apply_motion_correction_unfold:
  "apply_motion_correction L self pps st =
     (fst (correction_loop L (parameters self) pps
             [length st..<length st + length (stack_slices (fixed self))]
             [0..<init_N_slices self]
             (Euler2DTransform, fst (copy_slices st (stack_slices (fixed self))), [])),
      (case snd (correction_loop L (parameters self) pps
             [length st..<length st + length (stack_slices (fixed self))]
             [0..<init_N_slices self]
             (Euler2DTransform, fst (copy_slices st (stack_slices (fixed self))), [])) of
         Inl e \<Rightarrow> Inl e
       | Inr regs \<Rightarrow>
           Inr ((fixed self)
                  \<lparr>stack_slices := [length st..<length st + length (stack_slices (fixed self))],
                   stack_filename := stack_filename (fixed self) @ ''_registered''\<rparr>,
                regs)))"
  by (simp add: apply_motion_correction_def Stack_from_stack_eq split: prod.splits sum.splits)

lemma apply_motion_correction_prefix:
  "prefix st (fst (apply_motion_correction L self pps st))"
proof -
  let ?st' = "fst (copy_slices st (stack_slices (fixed self)))"
  let ?sl = "[length st..<length st + length (stack_slices (fixed self))]"
  have "\<forall>a\<in>set ?sl. length st \<le> a" by simp
  moreover have "prefix st ?st'" by (rule copy_slices_prefix)
  ultimately have "prefix st (fst (correction_loop L (parameters self) pps ?sl
       [0..<init_N_slices self] (Euler2DTransform, ?st', [])))"
    by (rule correction_loop_prefix)
  then show ?thesis
    by (simp add: apply_motion_correction_unfold)
qed

lemma run_unfold_store:
  "prefix st (fst (run_regularized_rigid_inplane_registration L self st))"
proof -
  let ?P = "get_2D_projected_and_masked_slices L self (fixed self)"
  have p: "prefix st (fst (?P pps st))" for pps
    by (simp add: get_2D_projected_and_masked_slices_def project_loop_prefix)
  have a: "prefix st (fst (apply_motion_correction L self' pps (fst (?P pps st))))" for pps self'
    using p apply_motion_correction_prefix prefix_order.trans by blast
  have p': "?P pps st = (st1, r) \<Longrightarrow> prefix st st1" for pps st1 r
    using p [of pps] by simp
  have a': "?P pps st = (st1, r) \<Longrightarrow> apply_motion_correction L self' pps st1 = (st2, r2)
      \<Longrightarrow> prefix st st2" for pps st1 r self' st2 r2
    using a [of self' pps] by simp
  show ?thesis
    unfolding run_regularized_rigid_inplane_registration_def Let_def
    by (auto split: sum.splits prod.splits dest: p' a')
qed


















section \<open>The concrete stacks, evaluated\<close>





















section \<open>C1: the postcondition of the residual evaluator\<close>

text \<open>
  C1. For a model with \<open>N \<ge> 2\<close> slices and a parameter vector of length \<open>3 * (N - 1)\<close>,
  \<^verbatim>\<open>_get_residual_data_fit\<close> returns the concatenation, in slice order, of the blocks
  \<open>nda (i - 1) - nda i\<close> for \<open>i = 1, ..., N - 1\<close>, where \<open>nda 0\<close> is the raw pixel
  array of projected slice 0 and \<open>nda i\<close> is projected slice \<open>i\<close> resampled onto the
  fixed grid under the transform object \<^verbatim>\<open>transforms_sitk[i]\<close> carrying the \<open>i\<close>-th group of
  three parameters, with linear interpolation; the result has \<open>(N - 1)\<close> times the
  voxel count of the fixed grid as its length. The hypotheses say that the object is
  in the state the constructor and the driver leave it in: one projected slice and one
  transform reference per slice, the fixed grid having the size of projected slice 0,
  and \<^verbatim>\<open>_N_2D_voxels\<close> being that grid's voxel count.
\<close>


theorem residual_postcondition:
  assumes "2 \<le> N_slices S"
    and "length v = 3 * (N_slices S - 1)"
    and "degrees_of_freedom S = 3"
    and "length (projected_slices_2D S) = N_slices S"
    and "length ts = N_slices S"
    and "\<forall>a\<in>set ts. a < length h"
    and "size2 (fixed_grid_2D_sitk S) = size2 (sitk2 (projected_slices_2D S ! 0))"
    and "wf_image2 (sitk2 (projected_slices_2D S ! 0))"
    and "N_2D_voxels S = voxels2 (fixed_grid_2D_sitk S)"
  shows "snd (get_residual_data_fit rp S v ts sitkLinear h)
           = Inr (concat (residual_blocks rp S v ts sitkLinear h))
         \<and> length (concat (residual_blocks rp S v ts sitkLinear h))
           = (N_slices S - 1) * voxels2 (fixed_grid_2D_sitk S)"
  using assms by (rule residual_postcondition_aux)

lemma example_hyps:
  "2 \<le> N_slices example_model"
  "length [1, 2, 3, 0, 0, 1 :: int] = 3 * (N_slices example_model - 1)"
  "degrees_of_freedom example_model = 3"
  "length (projected_slices_2D example_model) = N_slices example_model"
  "length [0, 0, 0 :: nat] = N_slices example_model"
  "\<forall>a\<in>set [0, 0, 0 :: nat]. a < length [Euler2DTransform :: int euler2d]"
  "size2 (fixed_grid_2D_sitk example_model) = size2 (sitk2 (projected_slices_2D example_model ! 0))"
  "wf_image2 (sitk2 (projected_slices_2D example_model ! 0))"
  "N_2D_voxels example_model = voxels2 (fixed_grid_2D_sitk example_model)"
  by (simp_all add: example_model_def example_image_def wf_image2_def voxels2_def)

lemma example_blocks:
  "concat (residual_blocks example_rp example_model [1, 2, 3, 0, 0, 1] [0, 0, 0] sitkLinear [Euler2DTransform])
   = [-317, -316, 218, 219]"
  by (simp add: residual_blocks_def nda_def example_model_def example_image_def Resample_def
       voxels2_def grid_of_def example_rp_def with_row_def group_def Euler2DTransform_def sub_list_def
       upt_rec)

theorem residual_postcondition_witness:
  "snd (get_residual_data_fit example_rp example_model [1, 2, 3, 0, 0, 1] [0, 0, 0] sitkLinear
          [Euler2DTransform])
   = Inr [-317, -316, 218, 219]"
  using residual_postcondition [OF example_hyps, of example_rp] by (simp add: example_blocks)

section \<open>C6: determinism of the residual evaluator\<close>

text \<open>
  C6. Two calls of \<^verbatim>\<open>_get_residual_data_fit\<close> with the same parameter vector and the
  same slice state return the same residual vector (or raise the same exception), also
  when the second call runs on the heap the first call left behind, that is after the
  first call has written to the shared transform objects.
\<close>


theorem residual_deterministic:
  "snd (get_residual_data_fit rp S v ts ip (fst (get_residual_data_fit rp S v ts ip h)))
   = snd (get_residual_data_fit rp S v ts ip h)"
  by (rule get_residual_cong) (rule get_residual_centers)

theorem residual_deterministic_witness:
  "snd (get_residual_data_fit example_rp example_model [1, 2, 3, 0, 0, 1] [0, 0, 0] sitkLinear
          (fst (get_residual_data_fit example_rp example_model [1, 2, 3, 0, 0, 1] [0, 0, 0]
                  sitkLinear [Euler2DTransform])))
   = snd (get_residual_data_fit example_rp example_model [1, 2, 3, 0, 0, 1] [0, 0, 0] sitkLinear
            [Euler2DTransform])"
  by (rule residual_deterministic)

section \<open>C8: the effect of the residual evaluator\<close>




section \<open>C4: expanding a 2D rigid transform to 3D\<close>



section \<open>C2: the formula of the correction composer\<close>




section \<open>C9: the input stack is never mutated\<close>

text \<open>
  C9. Slice projection writes only to the duplicates it makes of the stack's slices, and
  the correction composer only to the slices of its copy of the stack: the store before
  is a prefix of the store after slice projection, after the correction composer and
  after the whole run, whether they finish or raise. So every slice object that existed
  before the run, those of the input stack among them, has the content (direction,
  origin, pixels) it had before. The copies are those of \<^verbatim>\<open>Slice.from_slice\<close> and
  \<^verbatim>\<open>Stack.from_stack\<close> as the spec describes them.
\<close>


theorem input_stack_never_mutated:
  "prefix st (fst (get_2D_projected_and_masked_slices L self (fixed self) pps st))
   \<and> prefix st (fst (apply_motion_correction L self pps st))
   \<and> prefix st (fst (run_regularized_rigid_inplane_registration L self st))
   \<and> (a < length st \<longrightarrow>
        fst (run_regularized_rigid_inplane_registration L self st) ! a = st ! a)"
  using project_loop_prefix [of st L self "fixed self" pps "[0..<init_N_slices self]"]
    apply_motion_correction_prefix [of st L self pps]
    run_unfold_store [of st L self]
  by (simp add: get_2D_projected_and_masked_slices_def prefix_nth)

theorem input_stack_never_mutated_witness:
  "fst (run_regularized_rigid_inplane_registration example_library
          (init example_stack None True False) example_store) ! 0 = example_slice [5, 7] 0
   \<and> fst (run_regularized_rigid_inplane_registration example_library
          (init example_stack None True False) example_store) ! 1 = example_slice [1, 2] 1"
  using input_stack_never_mutated [of example_store example_library
            "init example_stack None True False" "[]" 0]
    input_stack_never_mutated [of example_store example_library
            "init example_stack None True False" "[]" 1]
  by (simp add: example_store_def)

section \<open>C3: the invariant of the correction composer\<close>




section \<open>C10: the file name of the corrected stack\<close>




section \<open>C5: a stack of one slice\<close>




section \<open>C7: mask weighting in slice projection\<close>




end
